theory Spec2Isabelle
  imports Complex_Main "HOL-Library.Log_Nat" "HOL-Library.Product_Lexorder"
begin

section \<open>Python values used by the notebook\<close>

text \<open>
  The notebook \<^verbatim>\<open>advanced_rag_pipeline_with_relevance_check.ipynb\<close> post-processes the text
  returned by two language-model calls. Text is modelled as \<^typ>\<open>string\<close>, one
  \<^typ>\<open>char\<close> per code point, so the model covers the code points 0 to 255. A Python
  \<^verbatim>\<open>float\<close> is an IEEE binary64 value: a finite value is kept as the rational number it
  denotes (the sign of zero is dropped: Python compares \<^verbatim>\<open>-0.0\<close> and \<^verbatim>\<open>0.0\<close> equal),
  next to the two infinities and NaN.
\<close>

datatype pyfloat = Finite rat | PosInf | NegInf | NaN

text \<open>Python's \<^verbatim>\<open><\<close> and \<^verbatim>\<open>>=\<close> on floats: every comparison with NaN is false.\<close>

fun float_lt :: "pyfloat \<Rightarrow> pyfloat \<Rightarrow> bool" where
  "float_lt NaN _ = False"
| "float_lt _ NaN = False"
| "float_lt (Finite a) (Finite b) = (a < b)"
| "float_lt (Finite _) PosInf = True"
| "float_lt NegInf (Finite _) = True"
| "float_lt NegInf PosInf = True"
| "float_lt _ _ = False"

fun float_ge :: "pyfloat \<Rightarrow> pyfloat \<Rightarrow> bool" where
  "float_ge NaN _ = False"
| "float_ge _ NaN = False"
| "float_ge (Finite a) (Finite b) = (b \<le> a)"
| "float_ge PosInf _ = True"
| "float_ge _ NegInf = True"
| "float_ge _ _ = False"

text \<open>The exceptions the modelled code can raise; a collaborator (retriever, language
  model) fails with \<open>CollaboratorError\<close>.\<close>

datatype error =
    ValueError
  | KeyError
  | AttributeError
  | TypeError
  | OutputParserException
  | CollaboratorError string

subsection \<open>Rounding a decimal value to binary64\<close>

text \<open>
  \<^verbatim>\<open>float(str)\<close> returns the binary64 value nearest to the decimal value written, ties to
  the even significand; a value too large for binary64 becomes an infinity (no
  \<^verbatim>\<open>OverflowError\<close> is raised by \<^verbatim>\<open>float\<close> on a string), a value too small becomes zero.
\<close>

definition round_half_even :: "rat \<Rightarrow> int" where
  "round_half_even q =
     (let f = \<lfloor>q\<rfloor>; d = q - of_int f
      in if d < 1 / 2 then f
         else if 1 / 2 < d then f + 1
         else if even f then f else f + 1)"

definition floor_log2 :: "rat \<Rightarrow> int" where
  \<comment> \<open>for \<open>0 < a\<close>: the \<open>e\<close> with \<open>2 powi e \<le> a < 2 powi (e + 1)\<close>\<close>
  "floor_log2 a =
     (let (n, d) = quotient_of a; k = bitlen n - bitlen d
      in if a < 2 powi k then k - 1 else k)"

definition binary64_round :: "rat \<Rightarrow> pyfloat" where
  "binary64_round q =
     (if q = 0 then Finite 0
      else
        let a = \<bar>q\<bar>;
            p = max (floor_log2 a - 52) (- 1074);
            v = of_int (round_half_even (a / 2 powi p)) * 2 powi p
        in if 2 powi 1024 \<le> v then (if q < 0 then NegInf else PosInf)
           else Finite (if q < 0 then - v else v))"

subsection \<open>Whitespace and \<^verbatim>\<open>str.strip\<close>\<close>

text \<open>
  \<^verbatim>\<open>str.strip()\<close> removes the characters for which \<^verbatim>\<open>str.isspace\<close> holds from both ends;
  below code point 256 these are 9 to 13, 28 to 32, 133 and 160. The C-level test
  \<^verbatim>\<open>Py_ISSPACE\<close> that \<^verbatim>\<open>float\<close> applies to its argument knows 9 to 13 and 32 only.
\<close>

definition py_isspace :: "char \<Rightarrow> bool" where
  "py_isspace c =
     (let n = (of_char c :: nat)
      in (9 \<le> n \<and> n \<le> 13) \<or> (28 \<le> n \<and> n \<le> 32) \<or> n = 133 \<or> n = 160)"

definition c_isspace :: "char \<Rightarrow> bool" where
  "c_isspace c = (let n = (of_char c :: nat) in (9 \<le> n \<and> n \<le> 13) \<or> n = 32)"

definition strip_with :: "(char \<Rightarrow> bool) \<Rightarrow> string \<Rightarrow> string" where
  "strip_with sp s = rev (dropWhile sp (rev (dropWhile sp s)))"

definition py_strip :: "string \<Rightarrow> string" where
  "py_strip s = strip_with py_isspace s"

subsection \<open>The builtin \<^verbatim>\<open>float\<close> on a string\<close>

text \<open>
  \<^verbatim>\<open>float(s)\<close> on a \<^verbatim>\<open>str\<close>, as CPython's \<^verbatim>\<open>PyFloat_FromString\<close> does it:
  \<^enum> a string with a non-ASCII character is rewritten: a non-ASCII space becomes a blank,
    and the text is cut at the first other character from 127 on, which becomes \<^verbatim>\<open>?\<close>
    (below code point 256 there is no decimal digit but \<^verbatim>\<open>0\<close> to \<^verbatim>\<open>9\<close>);
  \<^enum> an underscore is accepted between two digits only, and removed;
  \<^enum> blanks (\<^verbatim>\<open>Py_ISSPACE\<close>) are dropped from both ends; nothing left is an error;
  \<^enum> the rest has to be, as a whole, an optional sign followed by a decimal number with an
    optional exponent, or by \<^verbatim>\<open>inf\<close>, \<^verbatim>\<open>infinity\<close> or \<^verbatim>\<open>nan\<close> in any letter case.
  Every failure is a \<^verbatim>\<open>ValueError\<close>.
\<close>

definition is_digit :: "char \<Rightarrow> bool" where
  "is_digit c = (let n = (of_char c :: nat) in 48 \<le> n \<and> n \<le> 57)"

definition digit_val :: "char \<Rightarrow> int" where
  "digit_val c = of_char c - 48"

definition digits_value :: "string \<Rightarrow> int" where
  "digits_value ds = foldl (\<lambda>acc c. 10 * acc + digit_val c) 0 ds"

definition ascii_lower :: "char \<Rightarrow> char" where
  "ascii_lower c =
     (let n = (of_char c :: nat) in if 65 \<le> n \<and> n \<le> 90 then char_of (n + 32) else c)"

fun transform_space_to_ascii :: "string \<Rightarrow> string" where
  "transform_space_to_ascii [] = []"
| "transform_space_to_ascii (c # cs) =
     (if (of_char c :: nat) < 127 then c # transform_space_to_ascii cs
      else if py_isspace c then CHR '' '' # transform_space_to_ascii cs
      else [CHR ''?''])"

definition float_argument :: "string \<Rightarrow> string" where
  "float_argument s =
     (if list_all (\<lambda>c. (of_char c :: nat) < 128) s then s else transform_space_to_ascii s)"

fun strip_underscores :: "char \<Rightarrow> string \<Rightarrow> string option" where
  "strip_underscores prev [] = (if prev = CHR ''_'' then None else Some [])"
| "strip_underscores prev (c # cs) =
     (if c = CHR ''_'' then
        (if is_digit prev then strip_underscores c cs else None)
      else if prev = CHR ''_'' \<and> \<not> is_digit c then None
      else map_option ((#) c) (strip_underscores c cs))"

definition split_sign :: "string \<Rightarrow> bool \<times> string" where
  "split_sign s =
     (case s of
        [] \<Rightarrow> (False, [])
      | c # cs \<Rightarrow>
          if c = CHR ''-'' then (True, cs)
          else if c = CHR ''+'' then (False, cs)
          else (False, s))"

definition parse_exponent :: "string \<Rightarrow> int option" where
  "parse_exponent s =
     (case s of
        [] \<Rightarrow> Some 0
      | c # cs \<Rightarrow>
          if c = CHR ''e'' \<or> c = CHR ''E'' then
            (let (neg, ds) = split_sign cs
             in if ds \<noteq> [] \<and> list_all is_digit ds
                then Some (if neg then - digits_value ds else digits_value ds)
                else None)
          else None)"

definition parse_decimal :: "string \<Rightarrow> rat option" where
  "parse_decimal s =
     (let ip = takeWhile is_digit s;
          r1 = dropWhile is_digit s;
          (fp, r2) =
            (case r1 of
               [] \<Rightarrow> ([], [])
             | c # cs \<Rightarrow>
                 if c = CHR ''.'' then (takeWhile is_digit cs, dropWhile is_digit cs)
                 else ([], r1))
      in if ip = [] \<and> fp = [] then None
         else
           (case parse_exponent r2 of
              None \<Rightarrow> None
            | Some e \<Rightarrow>
                Some (of_int (digits_value (ip @ fp)) * 10 powi (e - int (length fp)))))"

definition parse_inf_or_nan :: "bool \<Rightarrow> string \<Rightarrow> pyfloat option" where
  "parse_inf_or_nan neg s =
     (let l = map ascii_lower s
      in if l = ''inf'' \<or> l = ''infinity'' then Some (if neg then NegInf else PosInf)
         else if l = ''nan'' then Some NaN
         else None)"

definition string_to_double :: "string \<Rightarrow> pyfloat option" where
  "string_to_double s =
     (let (neg, r) = split_sign s
      in case parse_decimal r of
           Some q \<Rightarrow> Some (binary64_round (if neg then - q else q))
         | None \<Rightarrow> parse_inf_or_nan neg r)"

definition py_float :: "string \<Rightarrow> error + pyfloat" where
  "py_float s =
     (case strip_underscores (CHR 0x00) (float_argument s) of
        None \<Rightarrow> Inl ValueError
      | Some t \<Rightarrow>
          (let u = strip_with c_isspace t
           in if u = [] then Inl ValueError
              else (case string_to_double u of
                      None \<Rightarrow> Inl ValueError
                    | Some f \<Rightarrow> Inr f)))"



section \<open>The notebook's data and post-processing functions\<close>

text \<open>
  \<^verbatim>\<open>Document\<close> is LangChain's passage type; the notebook reads its \<^verbatim>\<open>page_content\<close> only.
  \<^verbatim>\<open>FinalOutputModel\<close> is the notebook's pydantic model: a float field and a string field,
  neither with a constraint.
\<close>

record Document =
  page_content :: string

record FinalOutputModel =
  relevance_score :: pyfloat
  answer :: string

text \<open>
  The values a dictionary of the chain holds. The functions are annotated with \<^verbatim>\<open>dict\<close>
  and \<^verbatim>\<open>str\<close>, which Python does not enforce: a missing key raises \<^verbatim>\<open>KeyError\<close>, and a
  value of the wrong type raises where it is used.
\<close>

datatype pyval = VStr string | VNone | VModel FinalOutputModel

type_synonym pydict = "string \<rightharpoonup> pyval"

definition getitem :: "pydict \<Rightarrow> string \<Rightarrow> error + pyval" where
  "getitem x k = (case x k of None \<Rightarrow> Inl KeyError | Some v \<Rightarrow> Inr v)"

fun join :: "string \<Rightarrow> string list \<Rightarrow> string" where
  "join sep [] = []"
| "join sep [s] = s"
| "join sep (s # t # ss) = s @ sep @ join sep (t # ss)"

definition format_docs :: "Document list \<Rightarrow> string" where
  "format_docs docs = join [CHR 0x0A, CHR 0x0A] (map page_content docs)"

text \<open>
  \<^verbatim>\<open>extract_relevance_score\<close>: \<^verbatim>\<open>float(llm_output.strip())\<close> inside a \<^verbatim>\<open>try\<close> whose handler
  catches \<^verbatim>\<open>ValueError\<close> only and returns \<^verbatim>\<open>0.0\<close>. A value that is not a string has no
  \<^verbatim>\<open>strip\<close>: that \<^verbatim>\<open>AttributeError\<close> is not caught.
\<close>

fun extract_relevance_score :: "pyval \<Rightarrow> error + pyfloat" where
  "extract_relevance_score (VStr llm_output) =
     (case py_float (py_strip llm_output) of
        Inr score \<Rightarrow> Inr score
      | Inl e \<Rightarrow> if e = ValueError then Inr (Finite 0) else Inl e)"
| "extract_relevance_score VNone = Inl AttributeError"
| "extract_relevance_score (VModel m) = Inl AttributeError"

text \<open>
  \<^verbatim>\<open>pydantic_parser.parse_result([Generation(text=json.dumps(json_output))])\<close>, for a score
  and the value found under \<^verbatim>\<open>'answer'\<close>. \<^verbatim>\<open>json.dumps\<close> writes a float (NaN and the
  infinities included) and a string so that the parser reads the same values back, and both
  fields of \<^verbatim>\<open>FinalOutputModel\<close> accept every value of their type, the empty string
  included. \<^verbatim>\<open>None\<close> is written as \<^verbatim>\<open>null\<close>, which the string field refuses
  (\<^verbatim>\<open>OutputParserException\<close>); a \<^verbatim>\<open>FinalOutputModel\<close> object is not JSON serializable
  (\<^verbatim>\<open>TypeError\<close>).
\<close>

definition parse_result_json_dumps :: "pyfloat \<Rightarrow> pyval \<Rightarrow> error + FinalOutputModel" where
  "parse_result_json_dumps score a =
     (case a of
        VStr s \<Rightarrow> Inr \<lparr>relevance_score = score, answer = s\<rparr>
      | VNone \<Rightarrow> Inl OutputParserException
      | VModel m \<Rightarrow> Inl TypeError)"

definition format_json_output :: "pydict \<Rightarrow> error + FinalOutputModel" where
  "format_json_output x =
     (case getitem x ''relevance_score'' of
        Inl e \<Rightarrow> Inl e
      | Inr r \<Rightarrow>
          (case extract_relevance_score r of
             Inl e \<Rightarrow> Inl e
           | Inr score \<Rightarrow>
               (case getitem x ''answer'' of
                  Inl e \<Rightarrow> Inl e
                | Inr a \<Rightarrow> parse_result_json_dumps score a)))"

definition decline_text :: string where
  "decline_text = ''I don't know due to no relevant content found.''"

definition conditional_answer :: "pydict \<Rightarrow> error + pyval" where
  "conditional_answer x =
     (case getitem x ''relevance_score'' of
        Inl e \<Rightarrow> Inl e
      | Inr r \<Rightarrow>
          (case extract_relevance_score r of
             Inl e \<Rightarrow> Inl e
           | Inr score \<Rightarrow>
               if float_lt score (Finite 4) then Inr (VStr decline_text)
               else (case format_json_output x of
                       Inl e \<Rightarrow> Inl e
                     | Inr m \<Rightarrow> Inr (VModel m))))"

section \<open>The chain and the user-interface handler\<close>

text \<open>
  The chain's collaborators are outside the notebook: the ensemble retriever and the chat
  model. The model is called at two places of the chain, for the relevance judgment and
  for the answer; what it returns at each (after \<^verbatim>\<open>StrOutputParser\<close>) is a collaborator
  of its own here, since the model need not be a function of its prompt.
\<close>

record collaborators =
  ensemble_retriever :: "string \<Rightarrow> error + Document list"
  llm_relevance :: "string \<Rightarrow> error + string"
  llm_answer :: "string \<Rightarrow> error + string"

definition relevance_prompt :: "string \<Rightarrow> string \<Rightarrow> string" where
  \<comment> \<open>\<^verbatim>\<open>relevance_prompt_template.format(question=..., retrieved_context=...)\<close>\<close>
  "relevance_prompt question retrieved_context =
     concat
       [[CHR 0x0A],
        ''    Given the following question and retrieved context, determine if the context is relevant to the question.'',
        [CHR 0x0A],
        ''    Provide a score from 1 to 5, where 1 is not at all relevant and 5 is highly relevant.'',
        [CHR 0x0A],
        ''    Return ONLY the numeric score, without any additional text or explanation.'',
        [CHR 0x0A],
        [CHR 0x0A],
        ''    Question: '', question, [CHR 0x0A],
        ''    Retrieved Context: '', retrieved_context, [CHR 0x0A],
        [CHR 0x0A],
        ''    Relevance Score:'']"

definition rag_prompt :: "string \<Rightarrow> string \<Rightarrow> string" where
  \<comment> \<open>the hub prompt \<^verbatim>\<open>jclemens24/rag-prompt\<close>, as the notebook prints it\<close>
  "rag_prompt question retrieved_context =
     concat
       [''You are an assistant for question-answering tasks. Use the following pieces of retrieved context to answer the question. If you don't know the answer, just say that you don't know.'',
        [CHR 0x0A],
        ''Question: '', question, '' '', [CHR 0x0A],
        ''Context: '', retrieved_context, '' '', [CHR 0x0A],
        ''Answer:'']"

text \<open>
  \<^verbatim>\<open>rag_chain.invoke(question)\<close>: retrieve, format the passages, ask for the relevance
  judgment and for the answer on the same context (a parallel step: both calls are made,
  and a failure of the first key is the one raised), then replace \<^verbatim>\<open>'answer'\<close> by the
  result of \<^verbatim>\<open>conditional_answer\<close>. The parallel step's dictionary has the keys
  \<^verbatim>\<open>'relevance_score'\<close> and \<^verbatim>\<open>'answer'\<close> only.
\<close>

definition rag_chain :: "collaborators \<Rightarrow> string \<Rightarrow> error + pydict" where
  "rag_chain c question =
     (case ensemble_retriever c question of
        Inl e \<Rightarrow> Inl e
      | Inr docs \<Rightarrow>
          (let retrieved_context = format_docs docs
           in case llm_relevance c (relevance_prompt question retrieved_context) of
                Inl e \<Rightarrow> Inl e
              | Inr rel \<Rightarrow>
                  (case llm_answer c (rag_prompt question retrieved_context) of
                     Inl e \<Rightarrow> Inl e
                   | Inr ans \<Rightarrow>
                       (let x = [''relevance_score'' \<mapsto> VStr rel, ''answer'' \<mapsto> VStr ans]
                        in case conditional_answer x of
                             Inl e \<Rightarrow> Inl e
                           | Inr a \<Rightarrow> Inr (x(''answer'' \<mapsto> a))))))"

text \<open>The builtin \<^verbatim>\<open>float\<close> on a value of the chain's result.\<close>

fun float_of :: "pyval \<Rightarrow> error + pyfloat" where
  "float_of (VStr s) = py_float s"
| "float_of VNone = Inl TypeError"
| "float_of (VModel m) = Inl TypeError"

definition process_user_input :: "collaborators \<Rightarrow> string \<Rightarrow> error + pyfloat \<times> pyval" where
  "process_user_input c question =
     (case rag_chain c question of
        Inl e \<Rightarrow> Inl e
      | Inr result \<Rightarrow>
          (case getitem result ''answer'' of
             Inl e \<Rightarrow> Inl e
           | Inr a \<Rightarrow>
               (case a of
                  VModel m \<Rightarrow> Inr (relevance_score m, VStr (answer m))
                | _ \<Rightarrow>
                    (case getitem result ''relevance_score'' of
                       Inl e \<Rightarrow> Inl e
                     | Inr r \<Rightarrow>
                         (case float_of r of
                            Inl e \<Rightarrow> Inl e
                          | Inr f \<Rightarrow> Inr (f, a))))))"

section \<open>Rank fusion of the two retrievers\<close>

text \<open>
  Modelled from the spec: the notebook only configures the ensemble retriever
  (\<^verbatim>\<open>EnsembleRetriever(retrievers=[dense_retriever, sparse_retriever], weights=[0.5, 0.5],
  c=0, k=10)\<close>); the fusion itself is the library class's, whose code is not among the
  notebook's sources. The definitions below follow the spec's ContextFuser (section 4.2).
  A passage is its text, the deduplication key; its rank in a source is its position in
  that source's list, counted from 0 (the first position, should the list repeat a text);
  weights and scores are exact rationals.
\<close>

fun rank_in_source :: "string \<Rightarrow> string list \<Rightarrow> nat option" where
  \<comment> \<open>Modelled from the spec: the position of a passage in a source list, from 0\<close>
  "rank_in_source t [] = None"
| "rank_in_source t (p # ps) =
     (if p = t then Some 0 else map_option Suc (rank_in_source t ps))"

definition contribution :: "rat \<Rightarrow> string list \<Rightarrow> string \<Rightarrow> rat" where
  \<comment> \<open>Modelled from the spec: \<^verbatim>\<open>weight_source * (1 / (rank_in_source + 1))\<close>, nothing for a
     source the passage is not in\<close>
  "contribution w src t =
     (case rank_in_source t src of None \<Rightarrow> 0 | Some r \<Rightarrow> w * (1 / (of_nat r + 1)))"

definition fusion_score :: "rat \<Rightarrow> rat \<Rightarrow> string list \<Rightarrow> string list \<Rightarrow> string \<Rightarrow> rat" where
  \<comment> \<open>Modelled from the spec: the contributions summed over the source lists\<close>
  "fusion_score ws wl semantic lexical t = contribution ws semantic t + contribution wl lexical t"

definition combined_rank :: "string list \<Rightarrow> string list \<Rightarrow> string \<Rightarrow> nat" where
  \<comment> \<open>Modelled from the spec: the raw ranks of the passage, added up\<close>
  "combined_rank semantic lexical t =
     (case rank_in_source t semantic of None \<Rightarrow> 0 | Some r \<Rightarrow> r) +
     (case rank_in_source t lexical of None \<Rightarrow> 0 | Some r \<Rightarrow> r)"

definition fusion_key ::
  "rat \<Rightarrow> rat \<Rightarrow> string list \<Rightarrow> string list \<Rightarrow> string \<Rightarrow> rat \<times> nat \<times> nat" where
  \<comment> \<open>Modelled from the spec: descending fusion score; ties by (a) in both sources before
     in one, (b) lower combined raw rank. The key is compared lexicographically.\<close>
  "fusion_key ws wl semantic lexical t =
     (- fusion_score ws wl semantic lexical t,
      if t \<in> set semantic \<and> t \<in> set lexical then 0 else 1,
      combined_rank semantic lexical t)"

definition first_seen :: "string list \<Rightarrow> string list" where
  \<comment> \<open>Modelled from the spec: each text once, in the order of its first occurrence\<close>
  "first_seen ps = rev (remdups (rev ps))"

definition fuse ::
  "string list \<Rightarrow> string list \<Rightarrow> rat \<Rightarrow> rat \<Rightarrow> nat \<Rightarrow> string list" where
  \<comment> \<open>Modelled from the spec: \<^verbatim>\<open>fuse(semantic, lexical, weight-semantic, weight-lexical, k)\<close>.
     The sort is stable, so passages with equal keys stay in first-seen order (c), semantic
     before lexical; the result is cut to its first \<open>k\<close> entries.\<close>
  "fuse semantic lexical ws wl k =
     take k (sort_key (fusion_key ws wl semantic lexical) (first_seen (semantic @ lexical)))"

section \<open>Test doubles\<close>

text \<open>Collaborators that return fixed values: the retriever's passages, the judgment
  text and the generated text.\<close>

definition fixed_collaborators :: "Document list \<Rightarrow> string \<Rightarrow> string \<Rightarrow> collaborators" where
  "fixed_collaborators docs rel ans =
     \<lparr>ensemble_retriever = (\<lambda>q. Inr docs),
      llm_relevance = (\<lambda>p. Inr rel),
      llm_answer = (\<lambda>p. Inr ans)\<rparr>"

section \<open>Properties\<close>

subsection \<open>Auxiliary facts\<close>

lemma py_float_error: "py_float s = Inl e \<Longrightarrow> e = ValueError"
  by (auto simp: py_float_def Let_def split: option.splits if_splits)



lemma float_ge_not_lt: "float_ge a b \<Longrightarrow> \<not> float_lt a b"
  by (cases a; cases b) auto

lemma float_ge_iff_not_lt: "a \<noteq> NaN \<Longrightarrow> b \<noteq> NaN \<Longrightarrow> float_ge a b = (\<not> float_lt a b)"
  by (cases a; cases b) auto

lemma conditional_answer_str:
  "conditional_answer [''relevance_score'' \<mapsto> VStr r, ''answer'' \<mapsto> VStr a] =
     (case extract_relevance_score (VStr r) of
        Inl e \<Rightarrow> Inl e
      | Inr score \<Rightarrow>
          if float_lt score (Finite 4) then Inr (VStr decline_text)
          else Inr (VModel \<lparr>relevance_score = score, answer = a\<rparr>))"
  by (simp add: conditional_answer_def format_json_output_def getitem_def
      parse_result_json_dumps_def del: extract_relevance_score.simps split: sum.splits)

lemma conditional_answer_decline:
  assumes "x ''relevance_score'' = Some (VStr rel)"
    and "extract_relevance_score (VStr rel) = Inr score"
    and "float_lt score (Finite 4)"
  shows "conditional_answer x = Inr (VStr decline_text)"
  using assms by (simp add: conditional_answer_def getitem_def del: extract_relevance_score.simps)

lemma conditional_answer_proceed:
  assumes "x ''relevance_score'' = Some (VStr rel)"
    and "x ''answer'' = Some (VStr ans)"
    and "extract_relevance_score (VStr rel) = Inr score"
    and "\<not> float_lt score (Finite 4)"
  shows "conditional_answer x = Inr (VModel \<lparr>relevance_score = score, answer = ans\<rparr>)"
    and "format_json_output x = Inr \<lparr>relevance_score = score, answer = ans\<rparr>"
  using assms by (simp_all add: conditional_answer_def format_json_output_def getitem_def
      parse_result_json_dumps_def del: extract_relevance_score.simps)

lemma rag_chain_returns:
  assumes "ensemble_retriever c question = Inr docs"
    and "llm_relevance c (relevance_prompt question (format_docs docs)) = Inr rel"
    and "llm_answer c (rag_prompt question (format_docs docs)) = Inr ans"
  shows "rag_chain c question =
     (case conditional_answer [''relevance_score'' \<mapsto> VStr rel, ''answer'' \<mapsto> VStr ans] of
        Inl e \<Rightarrow> Inl e
      | Inr a \<Rightarrow> Inr [''relevance_score'' \<mapsto> VStr rel, ''answer'' \<mapsto> a])"
  using assms by (simp add: rag_chain_def Let_def split: sum.splits)

text \<open>The extractor and the builtin on the texts used below.\<close>

lemma extract_1: "extract_relevance_score (VStr ''1'') = Inr (Finite 1)"
  by code_simp

lemma extract_4: "extract_relevance_score (VStr ''4'') = Inr (Finite 4)"
  by code_simp

lemma extract_5: "extract_relevance_score (VStr ''5'') = Inr (Finite 5)"
  by code_simp

lemma extract_nan: "extract_relevance_score (VStr ''nan'') = Inr NaN"
  by code_simp

lemma extract_five: "extract_relevance_score (VStr ''five'') = Inr (Finite 0)"
  by code_simp

lemma py_float_five: "py_float ''five'' = Inl ValueError"
  by code_simp

lemma py_float_1: "py_float ''1'' = Inr (Finite 1)"
  by code_simp

subsection \<open>The decline branch\<close>

text \<open>
  C1, as stated, fails on the text of the decline. With the judgment \<^verbatim>\<open>"1"\<close> the
  extracted score is below 4 and \<^verbatim>\<open>conditional_answer\<close> returns normally, but what it
  returns is the string \<^verbatim>\<open>"I don't know due to no relevant content found."\<close>, not a reason
  that is exactly \<^verbatim>\<open>"no relevant content found"\<close>.
\<close>

theorem decline_reason_counterexample:
  "conditional_answer [''relevance_score'' \<mapsto> VStr ''1'', ''answer'' \<mapsto> VStr ''draft''] =
     Inr (VStr ''I don't know due to no relevant content found.'')
   \<and> conditional_answer [''relevance_score'' \<mapsto> VStr ''1'', ''answer'' \<mapsto> VStr ''draft''] \<noteq>
     Inr (VStr ''no relevant content found'')"
  by (simp add: conditional_answer_str extract_1 decline_text_def del: extract_relevance_score.simps)

text \<open>
  C1, amended: whenever the retriever and both model calls return and the score extracted
  from the judgment text is below 4, \<^verbatim>\<open>rag_chain.invoke\<close> returns normally (not an error)
  the dictionary whose \<^verbatim>\<open>'answer'\<close> is exactly the string
  \<^verbatim>\<open>"I don't know due to no relevant content found."\<close>; this is the decline branch of
  \<^verbatim>\<open>conditional_answer\<close>.
\<close>

theorem run_declines_below_threshold:
  assumes "ensemble_retriever c question = Inr docs"
    and "llm_relevance c (relevance_prompt question (format_docs docs)) = Inr rel"
    and "llm_answer c (rag_prompt question (format_docs docs)) = Inr ans"
    and "extract_relevance_score (VStr rel) = Inr score"
    and "float_lt score (Finite 4)"
  shows "rag_chain c question =
           Inr [''relevance_score'' \<mapsto> VStr rel,
                ''answer'' \<mapsto> VStr ''I don't know due to no relevant content found.'']
         \<and> conditional_answer [''relevance_score'' \<mapsto> VStr rel, ''answer'' \<mapsto> VStr ans] =
           Inr (VStr ''I don't know due to no relevant content found.'')"
proof -
  have d: "conditional_answer [''relevance_score'' \<mapsto> VStr rel, ''answer'' \<mapsto> VStr ans] =
      Inr (VStr decline_text)"
    using assms(4,5)
    by (intro conditional_answer_decline[where rel = rel and score = score]) simp_all
  moreover have "rag_chain c question =
      Inr [''relevance_score'' \<mapsto> VStr rel, ''answer'' \<mapsto> VStr decline_text]"
    using rag_chain_returns[OF assms(1-3)] d by simp
  ultimately show ?thesis by (simp add: decline_text_def)
qed

theorem run_declines_below_threshold_witness:
  "rag_chain (fixed_collaborators [\<lparr>page_content = ''passage''\<rparr>] ''1'' ''draft'') ''question'' =
     Inr [''relevance_score'' \<mapsto> VStr ''1'',
          ''answer'' \<mapsto> VStr ''I don't know due to no relevant content found.'']"
  using run_declines_below_threshold[of
      "fixed_collaborators [\<lparr>page_content = ''passage''\<rparr>] ''1'' ''draft''"
      "''question''" "[\<lparr>page_content = ''passage''\<rparr>]" "''1''" "''draft''" "Finite 1"]
  by (simp add: fixed_collaborators_def extract_1 del: extract_relevance_score.simps)

subsection \<open>An empty answer after the gate\<close>

text \<open>
  C2, as stated, fails: \<^verbatim>\<open>FinalOutputModel.answer\<close> is a plain \<^verbatim>\<open>str\<close> field with no
  constraint on its length, and nothing in \<^verbatim>\<open>format_json_output\<close> looks at the answer
  text. With the judgment \<^verbatim>\<open>"4"\<close> and an empty generated text the result is the model
  object \<^verbatim>\<open>FinalOutputModel(relevance_score=4.0, answer="")\<close>, not an error.
\<close>

theorem empty_answer_counterexample:
  "format_json_output [''relevance_score'' \<mapsto> VStr ''4'', ''answer'' \<mapsto> VStr ''''] =
     Inr \<lparr>relevance_score = Finite 4, answer = ''''\<rparr>
   \<and> conditional_answer [''relevance_score'' \<mapsto> VStr ''4'', ''answer'' \<mapsto> VStr ''''] =
     Inr (VModel \<lparr>relevance_score = Finite 4, answer = ''''\<rparr>)"
  using conditional_answer_proceed[of
      "[''relevance_score'' \<mapsto> VStr ''4'', ''answer'' \<mapsto> VStr '''']" "''4''" "''''" "Finite 4"]
  by (simp add: extract_4 del: extract_relevance_score.simps)

text \<open>
  C2, amended: when the gate has passed (the extracted score is at least 4) and the raw
  answer text is empty or whitespace-only, \<^verbatim>\<open>format_json_output\<close> raises nothing and
  returns the \<^verbatim>\<open>FinalOutputModel\<close> that carries the extracted score and that answer text
  unchanged, and \<^verbatim>\<open>conditional_answer\<close> returns this object.
\<close>

theorem blank_answer_is_answered:
  assumes "x ''relevance_score'' = Some (VStr rel)"
    and "x ''answer'' = Some (VStr ans)"
    and "extract_relevance_score (VStr rel) = Inr score"
    and "float_ge score (Finite 4)"
    and "py_strip ans = []"
  shows "format_json_output x = Inr \<lparr>relevance_score = score, answer = ans\<rparr>
         \<and> conditional_answer x = Inr (VModel \<lparr>relevance_score = score, answer = ans\<rparr>)"
  using conditional_answer_proceed[OF assms(1-3)] float_ge_not_lt[OF assms(4)] by simp

theorem blank_answer_is_answered_witness:
  "format_json_output [''relevance_score'' \<mapsto> VStr ''4'', ''answer'' \<mapsto> VStr ''  ''] =
     Inr \<lparr>relevance_score = Finite 4, answer = ''  ''\<rparr>
   \<and> conditional_answer [''relevance_score'' \<mapsto> VStr ''4'', ''answer'' \<mapsto> VStr ''  ''] =
     Inr (VModel \<lparr>relevance_score = Finite 4, answer = ''  ''\<rparr>)"
proof -
  have "py_strip ''  '' = []" by code_simp
  then show ?thesis
    using blank_answer_is_answered[of
        "[''relevance_score'' \<mapsto> VStr ''4'', ''answer'' \<mapsto> VStr ''  '']" "''4''" "''  ''" "Finite 4"]
    by (simp add: extract_4 del: extract_relevance_score.simps)
qed

subsection \<open>The answer branch\<close>

text \<open>
  C4: if the retriever and both model calls return, the score extracted from the raw
  judgment text is at least 4 and the generated text is not empty, then
  \<^verbatim>\<open>rag_chain.invoke\<close> returns the dictionary whose \<^verbatim>\<open>'answer'\<close> is the
  \<^verbatim>\<open>FinalOutputModel\<close> holding the score that \<^verbatim>\<open>format_json_output\<close> extracts again from
  the raw judgment text, and the generated text unchanged. The judgment \<^verbatim>\<open>"5"\<close> gives the
  score 5.0 (the witness).
\<close>

theorem run_answers_at_or_above_threshold:
  assumes "ensemble_retriever c question = Inr docs"
    and "llm_relevance c (relevance_prompt question (format_docs docs)) = Inr rel"
    and "llm_answer c (rag_prompt question (format_docs docs)) = Inr ans"
    and "extract_relevance_score (VStr rel) = Inr score"
    and "float_ge score (Finite 4)"
    and "ans \<noteq> []"
  shows "rag_chain c question =
           Inr [''relevance_score'' \<mapsto> VStr rel,
                ''answer'' \<mapsto> VModel \<lparr>relevance_score = score, answer = ans\<rparr>]
         \<and> format_json_output [''relevance_score'' \<mapsto> VStr rel, ''answer'' \<mapsto> VStr ans] =
           Inr \<lparr>relevance_score = score, answer = ans\<rparr>"
proof -
  let ?x = "[''relevance_score'' \<mapsto> VStr rel, ''answer'' \<mapsto> VStr ans]"
  have nlt: "\<not> float_lt score (Finite 4)"
    using assms(5) by (rule float_ge_not_lt)
  have a: "conditional_answer ?x = Inr (VModel \<lparr>relevance_score = score, answer = ans\<rparr>)"
    using assms(4) nlt by (intro conditional_answer_proceed(1)[where rel = rel]) simp_all
  have b: "format_json_output ?x = Inr \<lparr>relevance_score = score, answer = ans\<rparr>"
    using assms(4) nlt by (intro conditional_answer_proceed(2)[where rel = rel]) simp_all
  show ?thesis
    using rag_chain_returns[OF assms(1-3)] a b by simp
qed

theorem run_answers_at_or_above_threshold_witness:
  "rag_chain (fixed_collaborators [\<lparr>page_content = ''passage''\<rparr>] ''5'' ''an answer'') ''question'' =
     Inr [''relevance_score'' \<mapsto> VStr ''5'',
          ''answer'' \<mapsto> VModel \<lparr>relevance_score = Finite 5, answer = ''an answer''\<rparr>]"
  using run_answers_at_or_above_threshold[of
      "fixed_collaborators [\<lparr>page_content = ''passage''\<rparr>] ''5'' ''an answer''"
      "''question''" "[\<lparr>page_content = ''passage''\<rparr>]" "''5''" "''an answer''" "Finite 5"]
  by (simp add: fixed_collaborators_def extract_5 del: extract_relevance_score.simps)

subsection \<open>The draft answer does not reach a declined result\<close>

text \<open>
  C6: take two runs of the chain on the same question, with the same retriever and the
  same judgment call, whose generation calls return two texts of any content. If the
  score extracted from the judgment text is below 4, both runs return the same result: the
  generated text is dropped without being read.
\<close>

theorem draft_answer_never_influences_decline:
  assumes "ensemble_retriever c1 = ensemble_retriever c2"
    and "llm_relevance c1 = llm_relevance c2"
    and "ensemble_retriever c1 question = Inr docs"
    and "llm_relevance c1 (relevance_prompt question (format_docs docs)) = Inr rel"
    and "llm_answer c1 (rag_prompt question (format_docs docs)) = Inr ans1"
    and "llm_answer c2 (rag_prompt question (format_docs docs)) = Inr ans2"
    and "extract_relevance_score (VStr rel) = Inr score"
    and "float_lt score (Finite 4)"
  shows "rag_chain c1 question = rag_chain c2 question"
proof -
  have r2: "ensemble_retriever c2 question = Inr docs"
    "llm_relevance c2 (relevance_prompt question (format_docs docs)) = Inr rel"
    using assms(1-4) by simp_all
  have d: "\<And>ans. conditional_answer [''relevance_score'' \<mapsto> VStr rel, ''answer'' \<mapsto> VStr ans] =
      Inr (VStr decline_text)"
    using assms(7,8)
    by (intro conditional_answer_decline[where rel = rel and score = score]) simp_all
  show ?thesis
    using rag_chain_returns[OF assms(3,4,5)] rag_chain_returns[OF r2 assms(6)] d by simp
qed

theorem draft_answer_never_influences_decline_witness:
  "rag_chain (fixed_collaborators [\<lparr>page_content = ''passage''\<rparr>] ''1'' ''one draft'') ''question'' =
   rag_chain (fixed_collaborators [\<lparr>page_content = ''passage''\<rparr>] ''1'' ''another draft'') ''question''"
  using draft_answer_never_influences_decline[of
      "fixed_collaborators [\<lparr>page_content = ''passage''\<rparr>] ''1'' ''one draft''"
      "fixed_collaborators [\<lparr>page_content = ''passage''\<rparr>] ''1'' ''another draft''"
      "''question''" "[\<lparr>page_content = ''passage''\<rparr>]" "''1''"
      "''one draft''" "''another draft''" "Finite 1"]
  by (simp add: fixed_collaborators_def extract_1 del: extract_relevance_score.simps)

subsection \<open>The gate is monotonic\<close>

text \<open>
  C8: the gate of \<^verbatim>\<open>conditional_answer\<close> (its threshold is the literal 4) is monotonic in
  the score. If the score of one input is at least the score of another (Python's
  \<^verbatim>\<open>>=\<close>) and the gate lets the other proceed to a \<^verbatim>\<open>FinalOutputModel\<close>, it lets the first
  proceed as well: proceeding never switches off as the score rises.
\<close>

theorem gate_monotonic_in_score:
  assumes "extract_relevance_score (VStr rel1) = Inr score1"
    and "extract_relevance_score (VStr rel2) = Inr score2"
    and "float_ge score1 score2"
    and "conditional_answer [''relevance_score'' \<mapsto> VStr rel2, ''answer'' \<mapsto> VStr ans2] =
           Inr (VModel m2)"
  shows "conditional_answer [''relevance_score'' \<mapsto> VStr rel1, ''answer'' \<mapsto> VStr ans1] =
           Inr (VModel \<lparr>relevance_score = score1, answer = ans1\<rparr>)"
proof -
  have "\<not> float_lt score2 (Finite 4)"
    using assms(2,4)
    by (auto simp: conditional_answer_str simp del: extract_relevance_score.simps split: if_splits)
  with assms(3) have "\<not> float_lt score1 (Finite 4)"
    by (cases score1; cases score2) auto
  with assms(1) show ?thesis
    by (simp add: conditional_answer_str del: extract_relevance_score.simps)
qed

theorem gate_monotonic_in_score_witness:
  "conditional_answer [''relevance_score'' \<mapsto> VStr ''5'', ''answer'' \<mapsto> VStr ''a''] =
     Inr (VModel \<lparr>relevance_score = Finite 5, answer = ''a''\<rparr>)"
proof -
  have "conditional_answer [''relevance_score'' \<mapsto> VStr ''4'', ''answer'' \<mapsto> VStr ''b''] =
      Inr (VModel \<lparr>relevance_score = Finite 4, answer = ''b''\<rparr>)"
    by (simp add: conditional_answer_str extract_4 del: extract_relevance_score.simps)
  moreover have "float_ge (Finite 5) (Finite 4)" by simp
  ultimately show ?thesis
    using gate_monotonic_in_score[of "''5''" "Finite 5" "''4''" "Finite 4" "''b''" _ "''a''"]
      extract_5 extract_4
    by blast
qed

subsection \<open>The extractor is total and falls back to 0.0\<close>




















































subsection \<open>The gate and a NaN score\<close>

text \<open>Away from NaN the gate of \<^verbatim>\<open>conditional_answer\<close> is the comparison \<^verbatim>\<open>score >= 4\<close>,
  with the boundary on the proceeding side.\<close>

lemma extract_3999:
  "extract_relevance_score (VStr ''3.999'') = Inr (Finite (9004947454927307 / 2251799813685248))"
  by code_simp

lemma extract_40: "extract_relevance_score (VStr ''4.0'') = Inr (Finite 4)"
  by code_simp

lemma gate_threshold_non_nan:
  assumes "extract_relevance_score (VStr rel) = Inr score" and "score \<noteq> NaN"
  shows "(conditional_answer [''relevance_score'' \<mapsto> VStr rel, ''answer'' \<mapsto> VStr ans] =
            Inr (VModel \<lparr>relevance_score = score, answer = ans\<rparr>)) = float_ge score (Finite 4)"
    and "(conditional_answer [''relevance_score'' \<mapsto> VStr rel, ''answer'' \<mapsto> VStr ans] =
            Inr (VStr decline_text)) = (\<not> float_ge score (Finite 4))"
  using assms
  by (auto simp: conditional_answer_str float_ge_iff_not_lt simp del: extract_relevance_score.simps)

lemma gate_boundary:
  "conditional_answer [''relevance_score'' \<mapsto> VStr ''4.0'', ''answer'' \<mapsto> VStr ans] =
     Inr (VModel \<lparr>relevance_score = Finite 4, answer = ans\<rparr>)"
  "conditional_answer [''relevance_score'' \<mapsto> VStr ''3.999'', ''answer'' \<mapsto> VStr ans] =
     Inr (VStr decline_text)"
  by (simp_all add: conditional_answer_str extract_40 extract_3999
      del: extract_relevance_score.simps)

text \<open>
  C5 at the judgment text \<^verbatim>\<open>"nan"\<close>: \<^verbatim>\<open>float\<close> accepts it, so the extracted score is NaN.
  \<^verbatim>\<open>NaN < 4\<close> is false, so the chain proceeds and returns a \<^verbatim>\<open>FinalOutputModel\<close>,
  although \<^verbatim>\<open>NaN >= 4\<close> is false as well: the gate tests \<^verbatim>\<open>not (score < 4)\<close>, which
  differs from \<^verbatim>\<open>score >= 4\<close> at NaN.
\<close>

theorem gate_proceeds_on_nan:
  "extract_relevance_score (VStr ''nan'') = Inr NaN
   \<and> \<not> float_ge NaN (Finite 4)
   \<and> rag_chain (fixed_collaborators [\<lparr>page_content = ''passage''\<rparr>] ''nan'' ''draft'') ''question'' =
       Inr [''relevance_score'' \<mapsto> VStr ''nan'',
            ''answer'' \<mapsto> VModel \<lparr>relevance_score = NaN, answer = ''draft''\<rparr>]"
  using rag_chain_returns[of "fixed_collaborators [\<lparr>page_content = ''passage''\<rparr>] ''nan'' ''draft''"
      "''question''" "[\<lparr>page_content = ''passage''\<rparr>]" "''nan''" "''draft''"]
  by (simp add: fixed_collaborators_def conditional_answer_str extract_nan
      del: extract_relevance_score.simps)

subsection \<open>The score of an answered result\<close>

text \<open>For every input dictionary, a \<^verbatim>\<open>FinalOutputModel\<close> returned by
  \<^verbatim>\<open>conditional_answer\<close> carries the score extracted from the raw judgment text, and that
  score is not below 4.\<close>

lemma conditional_answer_model:
  assumes "conditional_answer x = Inr (VModel m)"
  shows "\<exists>rel. x ''relevance_score'' = Some (VStr rel)
           \<and> extract_relevance_score (VStr rel) = Inr (relevance_score m)
           \<and> \<not> float_lt (relevance_score m) (Finite 4)"
proof -
  from assms obtain r where r: "x ''relevance_score'' = Some r"
    by (auto simp: conditional_answer_def getitem_def split: option.splits)
  from assms r obtain score where s: "extract_relevance_score r = Inr score"
    by (auto simp: conditional_answer_def getitem_def split: sum.splits)
  from s obtain rel where rel: "r = VStr rel"
    by (cases r) auto
  from assms r s have nlt: "\<not> float_lt score (Finite 4)" and f: "format_json_output x = Inr m"
    by (auto simp: conditional_answer_def getitem_def simp del: extract_relevance_score.simps
        split: if_splits sum.splits)
  from f r s have "relevance_score m = score"
    by (auto simp: format_json_output_def getitem_def parse_result_json_dumps_def
        simp del: extract_relevance_score.simps split: option.splits pyval.splits)
  with r s rel nlt show ?thesis by simp
qed

text \<open>
  C9 at the input \<^verbatim>\<open>{'relevance_score': 'nan', 'answer': 'draft'}\<close>:
  \<^verbatim>\<open>conditional_answer\<close> returns a \<^verbatim>\<open>FinalOutputModel\<close> whose score is NaN, and
  \<^verbatim>\<open>NaN >= 4\<close> is false. The score of an answered result is never below 4, but it is
  not always at least 4.
\<close>

theorem answered_with_nan_score:
  "conditional_answer [''relevance_score'' \<mapsto> VStr ''nan'', ''answer'' \<mapsto> VStr ''draft''] =
     Inr (VModel \<lparr>relevance_score = NaN, answer = ''draft''\<rparr>)
   \<and> \<not> float_ge (relevance_score \<lparr>relevance_score = NaN, answer = ''draft''\<rparr>) (Finite 4)"
  by (simp add: conditional_answer_str extract_nan del: extract_relevance_score.simps)

subsection \<open>The handler parses the judgment text again, unguarded\<close>

lemma rag_chain_declined:
  assumes "ensemble_retriever c question = Inr docs"
    and "llm_relevance c (relevance_prompt question (format_docs docs)) = Inr rel"
    and "llm_answer c (rag_prompt question (format_docs docs)) = Inr ans"
    and "extract_relevance_score (VStr rel) = Inr score"
    and "float_lt score (Finite 4)"
  shows "rag_chain c question =
           Inr [''relevance_score'' \<mapsto> VStr rel, ''answer'' \<mapsto> VStr decline_text]"
  using rag_chain_returns[OF assms(1-3)] assms(4,5)
  by (simp add: conditional_answer_str del: extract_relevance_score.simps)

text \<open>
  C10: when the chain declines, \<^verbatim>\<open>process_user_input\<close> computes the score it displays as
  \<^verbatim>\<open>float(result["relevance_score"])\<close>, outside any \<^verbatim>\<open>try\<close>. If that parse gives a float
  \<open>f\<close> the handler returns the pair of \<open>f\<close> and the decline string; if it fails, the
  handler raises \<^verbatim>\<open>ValueError\<close>. The failure is reachable: the judgment text \<^verbatim>\<open>"five"\<close> is
  declined (the extractor, which is total, gives 0.0 for it) and the handler raises.
\<close>

theorem process_user_input_unguarded_float:
  assumes "ensemble_retriever c question = Inr docs"
    and "llm_relevance c (relevance_prompt question (format_docs docs)) = Inr rel"
    and "llm_answer c (rag_prompt question (format_docs docs)) = Inr ans"
    and "extract_relevance_score (VStr rel) = Inr score"
    and "float_lt score (Finite 4)"
  shows "(\<forall>f. py_float rel = Inr f \<longrightarrow>
            process_user_input c question =
              Inr (f, VStr ''I don't know due to no relevant content found.''))
         \<and> (\<forall>e. py_float rel = Inl e \<longrightarrow> process_user_input c question = Inl ValueError)
         \<and> process_user_input (fixed_collaborators docs ''five'' ans) question = Inl ValueError
         \<and> extract_relevance_score (VStr ''five'') = Inr (Finite 0)"
proof -
  have a: "process_user_input c question =
      (case py_float rel of Inl e \<Rightarrow> Inl e | Inr f \<Rightarrow> Inr (f, VStr decline_text))"
    using rag_chain_declined[OF assms]
    by (simp add: process_user_input_def getitem_def split: sum.splits)
  have "rag_chain (fixed_collaborators docs ''five'' ans) question =
      Inr [''relevance_score'' \<mapsto> VStr ''five'', ''answer'' \<mapsto> VStr decline_text]"
    by (rule rag_chain_declined[where docs = docs and ans = ans and score = "Finite 0"])
      (simp_all add: fixed_collaborators_def extract_five del: extract_relevance_score.simps)
  then have b: "process_user_input (fixed_collaborators docs ''five'' ans) question = Inl ValueError"
    by (simp add: process_user_input_def getitem_def py_float_five)
  show ?thesis
    using a b extract_five py_float_error[of rel]
    by (auto simp: decline_text_def simp del: extract_relevance_score.simps)
qed

theorem process_user_input_unguarded_float_witness:
  "process_user_input (fixed_collaborators [\<lparr>page_content = ''passage''\<rparr>] ''1'' ''draft'')
     ''question'' =
     Inr (Finite 1, VStr ''I don't know due to no relevant content found.'')
   \<and> process_user_input (fixed_collaborators [\<lparr>page_content = ''passage''\<rparr>] ''five'' ''draft'')
     ''question'' =
     Inl ValueError"
  using process_user_input_unguarded_float[of
      "fixed_collaborators [\<lparr>page_content = ''passage''\<rparr>] ''1'' ''draft''"
      "''question''" "[\<lparr>page_content = ''passage''\<rparr>]" "''1''" "''draft''" "Finite 1"]
  by (simp add: fixed_collaborators_def extract_1 py_float_1 del: extract_relevance_score.simps)

subsection \<open>Rank fusion\<close>

lemma first_seen_set: "set (first_seen ps) = set ps"
  by (simp add: first_seen_def)

lemma first_seen_distinct: "distinct (first_seen ps)"
  by (simp add: first_seen_def)

lemma first_seen_length: "length (first_seen ps) \<le> length ps"
  unfolding first_seen_def by (simp add: length_remdups_leq [of "rev ps", simplified])

lemma distinct_count_list_1: "distinct xs \<Longrightarrow> x \<in> set xs \<Longrightarrow> count_list xs x = 1"
  by (induction xs) auto

lemma fusion_key_fst:
  "fusion_key ws wl semantic lexical a \<le> fusion_key ws wl semantic lexical b \<Longrightarrow>
   fusion_score ws wl semantic lexical b \<le> fusion_score ws wl semantic lexical a"
  by (auto simp: fusion_key_def)

lemma sorted_by_key_scores:
  "sorted (map (fusion_key ws wl semantic lexical) xs) \<Longrightarrow>
   sorted_wrt (\<lambda>a b. fusion_score ws wl semantic lexical b \<le> fusion_score ws wl semantic lexical a) xs"
  by (induction xs) (auto dest: fusion_key_fst)

lemma sorted_wrt_prefix: "sorted_wrt R xs \<Longrightarrow> sorted_wrt R (take k xs)"
  by (metis append_take_drop_id sorted_wrt_append)

lemma rank_in_source_None: "rank_in_source t ps = None \<longleftrightarrow> t \<notin> set ps"
  by (induction ps) auto

text \<open>
  C7, as stated, fails on the model of the spec's fusion, with the notebook's weights and
  \<open>k\<close>. The passage \<open>p\<close> is second in the semantic list and third in the lexical list; its
  fusion score 5/12 is below the score 1/2 of each list's first passage, so it is fused
  into the third place, below its best single-source position. With \<open>k = 2\<close> the cut
  removes it: it does not occur in the output at all.
\<close>

theorem fuse_counterexample:
  "rank_in_source ''p'' [''a'', ''p''] = Some 1
   \<and> rank_in_source ''p'' [''b'', ''c'', ''p''] = Some 2
   \<and> fuse [''a'', ''p''] [''b'', ''c'', ''p''] (1 / 2) (1 / 2) 10 = [''a'', ''b'', ''p'', ''c'']
   \<and> rank_in_source ''p'' (fuse [''a'', ''p''] [''b'', ''c'', ''p''] (1 / 2) (1 / 2) 10) = Some 2
   \<and> count_list (fuse [''a'', ''p''] [''b'', ''c'', ''p''] (1 / 2) (1 / 2) 2) ''p'' = 0"
  by code_simp

text \<open>
  C7, amended: the fused output holds no passage text twice, has at most \<open>k\<close> entries and
  is the first \<open>k\<close> entries of the full ranking, which holds every passage of either list
  and is in descending order of fusion score. The fusion score of a passage is the sum,
  over the source lists in which it appears, of that source's weight times
  \<^verbatim>\<open>1 / (rank_in_source + 1)\<close>. A passage whose text is in both lists occurs exactly once
  when \<open>k\<close> is at least the number of distinct passages (and at most once for every \<open>k\<close>).
\<close>

theorem fuse_properties:
  "distinct (fuse semantic lexical ws wl k)
   \<and> length (fuse semantic lexical ws wl k) \<le> k
   \<and> fuse semantic lexical ws wl k =
       take k (fuse semantic lexical ws wl (length (semantic @ lexical)))
   \<and> set (fuse semantic lexical ws wl (length (semantic @ lexical))) = set semantic \<union> set lexical
   \<and> sorted_wrt (\<lambda>a b. fusion_score ws wl semantic lexical b \<le> fusion_score ws wl semantic lexical a)
        (fuse semantic lexical ws wl k)
   \<and> (\<forall>t i j. rank_in_source t semantic = Some i \<and> rank_in_source t lexical = Some j \<longrightarrow>
        fusion_score ws wl semantic lexical t =
          ws * (1 / (of_nat i + 1)) + wl * (1 / (of_nat j + 1)))
   \<and> (\<forall>t i. rank_in_source t semantic = Some i \<and> t \<notin> set lexical \<longrightarrow>
        fusion_score ws wl semantic lexical t = ws * (1 / (of_nat i + 1)))
   \<and> (\<forall>t j. t \<notin> set semantic \<and> rank_in_source t lexical = Some j \<longrightarrow>
        fusion_score ws wl semantic lexical t = wl * (1 / (of_nat j + 1)))
   \<and> (\<forall>t. t \<in> set semantic \<and> t \<in> set lexical
          \<and> length (first_seen (semantic @ lexical)) \<le> k \<longrightarrow>
        count_list (fuse semantic lexical ws wl k) t = 1)"
proof -
  let ?full = "sort_key (fusion_key ws wl semantic lexical) (first_seen (semantic @ lexical))"
  let ?desc = "\<lambda>a b. fusion_score ws wl semantic lexical b \<le> fusion_score ws wl semantic lexical a"
  have d: "distinct ?full"
    by (simp add: first_seen_distinct)
  have len: "length ?full \<le> length (semantic @ lexical)"
    using first_seen_length[of "semantic @ lexical"] by simp
  have full: "fuse semantic lexical ws wl (length (semantic @ lexical)) = ?full"
    unfolding fuse_def using len by simp
  have 1: "distinct (fuse semantic lexical ws wl k)"
    unfolding fuse_def using d by (rule distinct_take)
  have 2: "length (fuse semantic lexical ws wl k) \<le> k"
    by (simp add: fuse_def)
  have 3: "fuse semantic lexical ws wl k =
      take k (fuse semantic lexical ws wl (length (semantic @ lexical)))"
    unfolding full by (simp add: fuse_def)
  have 4: "set (fuse semantic lexical ws wl (length (semantic @ lexical))) =
      set semantic \<union> set lexical"
    unfolding full by (simp add: first_seen_set)
  have "sorted (map (fusion_key ws wl semantic lexical) ?full)"
    by (rule sorted_sort_key)
  then have "sorted_wrt ?desc ?full"
    by (rule sorted_by_key_scores)
  then have 5: "sorted_wrt ?desc (fuse semantic lexical ws wl k)"
    unfolding fuse_def by (rule sorted_wrt_prefix)
  have 6: "\<forall>t i j. rank_in_source t semantic = Some i \<and> rank_in_source t lexical = Some j \<longrightarrow>
        fusion_score ws wl semantic lexical t =
          ws * (1 / (of_nat i + 1)) + wl * (1 / (of_nat j + 1))"
    by (simp add: fusion_score_def contribution_def)
  have 7: "\<forall>t i. rank_in_source t semantic = Some i \<and> t \<notin> set lexical \<longrightarrow>
        fusion_score ws wl semantic lexical t = ws * (1 / (of_nat i + 1))"
    by (auto simp: fusion_score_def contribution_def rank_in_source_None[symmetric])
  have 8: "\<forall>t j. t \<notin> set semantic \<and> rank_in_source t lexical = Some j \<longrightarrow>
        fusion_score ws wl semantic lexical t = wl * (1 / (of_nat j + 1))"
    by (auto simp: fusion_score_def contribution_def rank_in_source_None[symmetric])
  have 9: "\<forall>t. t \<in> set semantic \<and> t \<in> set lexical
          \<and> length (first_seen (semantic @ lexical)) \<le> k \<longrightarrow>
        count_list (fuse semantic lexical ws wl k) t = 1"
  proof (intro allI impI)
    fix t
    assume a: "t \<in> set semantic \<and> t \<in> set lexical
        \<and> length (first_seen (semantic @ lexical)) \<le> k"
    then have "fuse semantic lexical ws wl k = ?full"
      by (simp add: fuse_def)
    moreover have "t \<in> set ?full"
      using a by (simp add: first_seen_set)
    ultimately show "count_list (fuse semantic lexical ws wl k) t = 1"
      using d by (simp add: distinct_count_list_1)
  qed
  show ?thesis
    using 1 2 3 4 5 6 7 8 9 by blast
qed

theorem fuse_properties_witness:
  "count_list (fuse [''a'', ''p''] [''b'', ''c'', ''p''] (1 / 2) (1 / 2) 10) ''p'' = 1
   \<and> fusion_score (1 / 2) (1 / 2) [''a'', ''p''] [''b'', ''c'', ''p''] ''p'' = 5 / 12"
proof -
  note fp = fuse_properties[of "[''a'', ''p'']" "[''b'', ''c'', ''p'']" "1 / 2" "1 / 2" 10]
  have r1: "rank_in_source ''p'' [''a'', ''p''] = Some 1"
    and r2: "rank_in_source ''p'' [''b'', ''c'', ''p''] = Some 2"
    and n: "length (first_seen ([''a'', ''p''] @ [''b'', ''c'', ''p''])) \<le> 10"
    by code_simp+
  have m: "''p'' \<in> set [''a'', ''p'']" "''p'' \<in> set [''b'', ''c'', ''p'']"
    by simp_all
  have "fusion_score (1 / 2) (1 / 2) [''a'', ''p''] [''b'', ''c'', ''p''] ''p'' =
      (1 / 2) * (1 / (of_nat 1 + 1)) + (1 / 2) * (1 / (of_nat 2 + 1))"
    using fp[THEN conjunct2, THEN conjunct2, THEN conjunct2, THEN conjunct2, THEN conjunct2,
        THEN conjunct1, rule_format, of "''p''" 1 2] r1 r2
    by blast
  moreover have "count_list (fuse [''a'', ''p''] [''b'', ''c'', ''p''] (1 / 2) (1 / 2) 10) ''p'' = 1"
    using fp[THEN conjunct2, THEN conjunct2, THEN conjunct2, THEN conjunct2, THEN conjunct2,
        THEN conjunct2, THEN conjunct2, THEN conjunct2, rule_format, of "''p''"] m n
    by blast
  ultimately show ?thesis by simp
qed

end
